theory Spec2Isabelle
  imports Main "HOL-Library.Word" "HOL-Library.AList"
begin

unbundle bit_operations_syntax

section \<open>Python values\<close>

text \<open>
  A Python \<open>str\<close> is a sequence of Unicode code points, so it is modelled as a list of
  natural numbers (the code points), not as a list of bytes: \<open>str.encode()\<close> is then a
  function of its own, and it can fail. \<open>py\<close> turns a literal into such a string.
\<close>

type_synonym pystr = "nat list"

type_synonym byte = "8 word"

type_synonym u32 = "32 word"

definition py :: "string \<Rightarrow> pystr" where
  "py s = map of_char s"

text \<open>
  The exceptions the modelled code can raise. \<open>Ill_typed\<close> is not a Python exception: it
  marks the places where the source would build an object whose field does not have the
  type its dataclass annotation declares (a \<open>message\<close> that is not a \<open>str\<close>, say), which
  the typed records below cannot hold.
\<close>

datatype error =
    KeyError pystr
  | TypeError
  | ValueError
  | AttributeError
  | JSONDecodeError
  | UnicodeEncodeError
  | FileNotFoundError
  | Ill_typed

text \<open>
  What \<open>json.loads\<close> returns and \<open>json.dumps\<close> accepts. A \<open>dict\<close> keeps insertion
  order, so an object is an association list. Floating point numbers are left out.
\<close>

datatype json =
    JNull
  | JBool bool
  | JNum int
  | JStr pystr
  | JList "json list"
  | JObj "(pystr \<times> json) list"

text \<open>\<open>str(n)\<close> for a non-negative integer.\<close>

definition digit :: "nat \<Rightarrow> nat" where
  "digit n = 48 + n"

function str_nat :: "nat \<Rightarrow> pystr" where
  "str_nat n = (if n < 10 then [digit n] else str_nat (n div 10) @ [digit (n mod 10)])"
  by pat_completeness auto
termination
  by (relation "measure (\<lambda>n. n)") auto

declare str_nat.simps [simp del]

text \<open>The format specification \<open>%0wd\<close>: at least \<open>w\<close> digits, padded with zeros.\<close>

definition zfill :: "nat \<Rightarrow> nat \<Rightarrow> pystr" where
  "zfill w n = replicate (w - length (str_nat n)) (digit 0) @ str_nat n"

section \<open>datetime\<close>

text \<open>
  A naive \<open>datetime\<close> (no \<open>tzinfo\<close>), which is what \<open>datetime.now()\<close> with no argument
  returns; the program creates timestamps in no other way. The class invariant of
  \<open>datetime\<close> is \<open>valid_datetime\<close>.
\<close>

record datetime =
  year :: nat
  month :: nat
  day :: nat
  hour :: nat
  minute :: nat
  second :: nat
  microsecond :: nat

definition is_leap :: "nat \<Rightarrow> bool" where
  "is_leap y = (y mod 4 = 0 \<and> (y mod 100 \<noteq> 0 \<or> y mod 400 = 0))"

definition days_in_month :: "nat \<Rightarrow> nat \<Rightarrow> nat" where
  "days_in_month y m =
     (if m = 2 then (if is_leap y then 29 else 28)
      else if m = 4 \<or> m = 6 \<or> m = 9 \<or> m = 11 then 30 else 31)"

definition valid_datetime :: "datetime \<Rightarrow> bool" where
  "valid_datetime d =
     (1 \<le> year d \<and> year d \<le> 9999 \<and> 1 \<le> month d \<and> month d \<le> 12 \<and>
      1 \<le> day d \<and> day d \<le> days_in_month (year d) (month d) \<and>
      hour d < 24 \<and> minute d < 60 \<and> second d < 60 \<and> microsecond d < 1000000)"

text \<open>
  \<open>datetime.isoformat()\<close> with the default separator and \<open>timespec\<close>:
  \<open>YYYY-MM-DDTHH:MM:SS\<close>, followed by \<open>.ffffff\<close> when the microsecond is not zero.
\<close>

definition isoformat :: "datetime \<Rightarrow> pystr" where
  "isoformat d =
     zfill 4 (year d) @ py ''-'' @ zfill 2 (month d) @ py ''-'' @ zfill 2 (day d) @
     py ''T'' @ zfill 2 (hour d) @ py '':'' @ zfill 2 (minute d) @ py '':'' @
     zfill 2 (second d) @
     (if microsecond d \<noteq> 0 then py ''.'' @ zfill 6 (microsecond d) else [])"

text \<open>
  \<open>datetime.fromisoformat\<close>, for the documented grammar of naive timestamps
  \<open>YYYY-MM-DD[*HH[:MM[:SS[.fff[fff]]]]]\<close>, where \<open>*\<close> is any one character. The parser
  reads the text from left to right: \<open>digits n\<close> takes exactly \<open>n\<close> ASCII digits off the
  front and \<open>expect c\<close> one given character. Every failure is a \<open>ValueError\<close>.
\<close>

definition digit_val :: "nat \<Rightarrow> nat option" where
  "digit_val c = (if 48 \<le> c \<and> c \<le> 57 then Some (c - 48) else None)"

fun digits_acc :: "nat \<Rightarrow> nat \<Rightarrow> pystr \<Rightarrow> (nat \<times> pystr) option" where
  "digits_acc 0 acc s = Some (acc, s)"
| "digits_acc (Suc n) acc [] = None"
| "digits_acc (Suc n) acc (c # s) =
     (case digit_val c of None \<Rightarrow> None | Some v \<Rightarrow> digits_acc n (acc * 10 + v) s)"

definition digits :: "nat \<Rightarrow> pystr \<Rightarrow> (nat \<times> pystr) option" where
  "digits n s = digits_acc n 0 s"

fun expect :: "nat \<Rightarrow> pystr \<Rightarrow> pystr option" where
  "expect c [] = None"
| "expect c (x # s) = (if x = c then Some s else None)"

definition parse_fraction :: "pystr \<Rightarrow> nat option" where
  "parse_fraction s =
     (if length s = 6 then
        (case digits 6 s of Some (f, []) \<Rightarrow> Some f | _ \<Rightarrow> None)
      else if length s = 3 then
        (case digits 3 s of Some (f, []) \<Rightarrow> Some (f * 1000) | _ \<Rightarrow> None)
      else None)"

definition parse_time :: "pystr \<Rightarrow> (nat \<times> nat \<times> nat \<times> nat) option" where
  "parse_time s =
     (case digits 2 s of None \<Rightarrow> None | Some (h, s1) \<Rightarrow>
      if s1 = [] then Some (h, 0, 0, 0) else
      case expect 58 s1 of None \<Rightarrow> None | Some s2 \<Rightarrow>
      case digits 2 s2 of None \<Rightarrow> None | Some (mi, s3) \<Rightarrow>
      if s3 = [] then Some (h, mi, 0, 0) else
      case expect 58 s3 of None \<Rightarrow> None | Some s4 \<Rightarrow>
      case digits 2 s4 of None \<Rightarrow> None | Some (sec, s5) \<Rightarrow>
      if s5 = [] then Some (h, mi, sec, 0) else
      case expect 46 s5 of None \<Rightarrow> None | Some s6 \<Rightarrow>
      case parse_fraction s6 of None \<Rightarrow> None | Some us \<Rightarrow> Some (h, mi, sec, us))"

definition parse_date :: "pystr \<Rightarrow> ((nat \<times> nat \<times> nat) \<times> pystr) option" where
  "parse_date s =
     (case digits 4 s of None \<Rightarrow> None | Some (y, s1) \<Rightarrow>
      case expect 45 s1 of None \<Rightarrow> None | Some s2 \<Rightarrow>
      case digits 2 s2 of None \<Rightarrow> None | Some (m, s3) \<Rightarrow>
      case expect 45 s3 of None \<Rightarrow> None | Some s4 \<Rightarrow>
      case digits 2 s4 of None \<Rightarrow> None | Some (d, s5) \<Rightarrow> Some ((y, m, d), s5))"

definition parse_time_part :: "pystr \<Rightarrow> (nat \<times> nat \<times> nat \<times> nat) option" where
  "parse_time_part rest = (case rest of [] \<Rightarrow> Some (0, 0, 0, 0) | sep # t \<Rightarrow> parse_time t)"

definition fromisoformat :: "pystr \<Rightarrow> error + datetime" where
  "fromisoformat s =
     (case parse_date s of None \<Rightarrow> Inl ValueError | Some ((y, m, d), rest) \<Rightarrow>
      case parse_time_part rest of
        None \<Rightarrow> Inl ValueError
      | Some (h, mi, sec, us) \<Rightarrow>
          (let dt = \<lparr>year = y, month = m, day = d, hour = h, minute = mi,
                      second = sec, microsecond = us\<rparr>
           in if valid_datetime dt then Inr dt else Inl ValueError))"

section \<open>Encoding and hashing\<close>

text \<open>
  \<open>str.encode()\<close>: UTF-8, with the default error handler \<open>strict\<close>. A surrogate code
  point (\<open>U+D800\<close> to \<open>U+DFFF\<close>) has no UTF-8 form and raises
  \<open>UnicodeEncodeError\<close>; a number from \<open>0x110000\<close> on is not a code point at all.
\<close>

definition encode_char :: "nat \<Rightarrow> byte list option" where
  "encode_char c =
     (if c < 0x80 then Some [of_nat c]
      else if c < 0x800 then Some [of_nat (0xC0 + c div 64), of_nat (0x80 + c mod 64)]
      else if 0xD800 \<le> c \<and> c \<le> 0xDFFF then None
      else if c < 0x10000 then
        Some [of_nat (0xE0 + c div 4096), of_nat (0x80 + c div 64 mod 64),
              of_nat (0x80 + c mod 64)]
      else if c < 0x110000 then
        Some [of_nat (0xF0 + c div 262144), of_nat (0x80 + c div 4096 mod 64),
              of_nat (0x80 + c div 64 mod 64), of_nat (0x80 + c mod 64)]
      else None)"

fun encode :: "pystr \<Rightarrow> error + byte list" where
  "encode [] = Inr []"
| "encode (c # s) =
     (case encode_char c of None \<Rightarrow> Inl UnicodeEncodeError
      | Some bs \<Rightarrow> (case encode s of Inl e \<Rightarrow> Inl e | Inr rest \<Rightarrow> Inr (bs @ rest)))"

text \<open>
  \<open>hashlib.sha256\<close> (FIPS 180-4): the message is padded to a multiple of 64 bytes, and
  each block of sixteen big-endian words is expanded to 64 words and run through 64
  rounds on a state of eight words.
\<close>

definition rotr :: "nat \<Rightarrow> u32 \<Rightarrow> u32" where
  "rotr n x = drop_bit n x OR push_bit (32 - n) x"

definition ch :: "u32 \<Rightarrow> u32 \<Rightarrow> u32 \<Rightarrow> u32" where
  "ch x y z = (x AND y) XOR (NOT x AND z)"

definition maj :: "u32 \<Rightarrow> u32 \<Rightarrow> u32 \<Rightarrow> u32" where
  "maj x y z = (x AND y) XOR (x AND z) XOR (y AND z)"

definition bsig0 :: "u32 \<Rightarrow> u32" where
  "bsig0 x = rotr 2 x XOR rotr 13 x XOR rotr 22 x"

definition bsig1 :: "u32 \<Rightarrow> u32" where
  "bsig1 x = rotr 6 x XOR rotr 11 x XOR rotr 25 x"

definition ssig0 :: "u32 \<Rightarrow> u32" where
  "ssig0 x = rotr 7 x XOR rotr 18 x XOR drop_bit 3 x"

definition ssig1 :: "u32 \<Rightarrow> u32" where
  "ssig1 x = rotr 17 x XOR rotr 19 x XOR drop_bit 10 x"

definition sha256_k :: "u32 list" where
  "sha256_k =
     [0x428a2f98, 0x71374491, 0xb5c0fbcf, 0xe9b5dba5] @
     [0x3956c25b, 0x59f111f1, 0x923f82a4, 0xab1c5ed5] @
     [0xd807aa98, 0x12835b01, 0x243185be, 0x550c7dc3] @
     [0x72be5d74, 0x80deb1fe, 0x9bdc06a7, 0xc19bf174] @
     [0xe49b69c1, 0xefbe4786, 0x0fc19dc6, 0x240ca1cc] @
     [0x2de92c6f, 0x4a7484aa, 0x5cb0a9dc, 0x76f988da] @
     [0x983e5152, 0xa831c66d, 0xb00327c8, 0xbf597fc7] @
     [0xc6e00bf3, 0xd5a79147, 0x06ca6351, 0x14292967] @
     [0x27b70a85, 0x2e1b2138, 0x4d2c6dfc, 0x53380d13] @
     [0x650a7354, 0x766a0abb, 0x81c2c92e, 0x92722c85] @
     [0xa2bfe8a1, 0xa81a664b, 0xc24b8b70, 0xc76c51a3] @
     [0xd192e819, 0xd6990624, 0xf40e3585, 0x106aa070] @
     [0x19a4c116, 0x1e376c08, 0x2748774c, 0x34b0bcb5] @
     [0x391c0cb3, 0x4ed8aa4a, 0x5b9cca4f, 0x682e6ff3] @
     [0x748f82ee, 0x78a5636f, 0x84c87814, 0x8cc70208] @
     [0x90befffa, 0xa4506ceb, 0xbef9a3f7, 0xc67178f2]"

type_synonym sha_state = "u32 \<times> u32 \<times> u32 \<times> u32 \<times> u32 \<times> u32 \<times> u32 \<times> u32"

definition sha256_init :: sha_state where
  "sha256_init =
    (0x6a09e667, 0xbb67ae85, 0x3c6ef372, 0xa54ff53a, 0x510e527f, 0x9b05688c, 0x1f83d9ab, 0x5be0cd19)"

text \<open>The eight bytes of the message length in bits, and the padding.\<close>

definition be_bytes :: "nat \<Rightarrow> nat \<Rightarrow> byte list" where
  "be_bytes k n = map (\<lambda>i. of_nat (n div 256 ^ i mod 256)) (rev [0..<k])"

definition sha256_pad :: "byte list \<Rightarrow> byte list" where
  "sha256_pad m =
     m @ [0x80] @ replicate ((119 - length m mod 64) mod 64) 0 @ be_bytes 8 (8 * length m)"

definition be_word :: "byte list \<Rightarrow> u32" where
  "be_word bs = foldl (\<lambda>w b. push_bit 8 w OR ucast b) 0 bs"

fun words_of :: "nat \<Rightarrow> byte list \<Rightarrow> u32 list" where
  "words_of 0 bs = []"
| "words_of (Suc n) bs = be_word (take 4 bs) # words_of n (drop 4 bs)"

fun schedule :: "nat \<Rightarrow> u32 list \<Rightarrow> u32 list" where
  "schedule 0 w = w"
| "schedule (Suc n) w =
     schedule n (w @ [ssig1 (w ! (length w - 2)) + w ! (length w - 7) +
                      ssig0 (w ! (length w - 15)) + w ! (length w - 16)])"

fun sha256_round :: "sha_state \<Rightarrow> u32 \<times> u32 \<Rightarrow> sha_state" where
  "sha256_round (a, b, c, d, e, f, g, h) (k, w) =
     (let t1 = h + bsig1 e + ch e f g + k + w;
          t2 = bsig0 a + maj a b c
      in (t1 + t2, a, b, c, d + t1, e, f, g))"

fun add_state :: "sha_state \<Rightarrow> sha_state \<Rightarrow> sha_state" where
  "add_state (a, b, c, d, e, f, g, h) (a', b', c', d', e', f', g', h') =
     (a + a', b + b', c + c', d + d', e + e', f + f', g + g', h + h')"

definition compress :: "sha_state \<Rightarrow> byte list \<Rightarrow> sha_state" where
  "compress st block =
     add_state st (foldl sha256_round st (zip sha256_k (schedule 48 (words_of 16 block))))"

fun sha256_blocks :: "nat \<Rightarrow> sha_state \<Rightarrow> byte list \<Rightarrow> sha_state" where
  "sha256_blocks 0 st bs = st"
| "sha256_blocks (Suc n) st bs = sha256_blocks n (compress st (take 64 bs)) (drop 64 bs)"

definition word_bytes :: "u32 \<Rightarrow> byte list" where
  "word_bytes w = [ucast (drop_bit 24 w), ucast (drop_bit 16 w), ucast (drop_bit 8 w), ucast w]"

fun state_bytes :: "sha_state \<Rightarrow> byte list" where
  "state_bytes (a, b, c, d, e, f, g, h) =
     word_bytes a @ word_bytes b @ word_bytes c @ word_bytes d @
     word_bytes e @ word_bytes f @ word_bytes g @ word_bytes h"

definition sha256 :: "byte list \<Rightarrow> byte list" where
  "sha256 m =
     (let p = sha256_pad m in state_bytes (sha256_blocks (length p div 64) sha256_init p))"

text \<open>\<open>hexdigest()\<close>: two lower-case hexadecimal digits for each byte.\<close>

definition hex_digit :: "nat \<Rightarrow> nat" where
  "hex_digit n = (if n < 10 then 48 + n else 87 + n)"

definition hex_byte :: "byte \<Rightarrow> pystr" where
  "hex_byte b = [hex_digit (unat b div 16), hex_digit (unat b mod 16)]"

definition hexdigest :: "byte list \<Rightarrow> pystr" where
  "hexdigest bs = concat (map hex_byte bs)"

definition is_lower_hex :: "nat \<Rightarrow> bool" where
  "is_lower_hex c = ((48 \<le> c \<and> c \<le> 57) \<or> (97 \<le> c \<and> c \<le> 102))"

section \<open>Milestone and Commit\<close>

text \<open>
  The two dataclasses of \<open>models.py\<close>. Both have a \<open>message\<close> and a \<open>timestamp\<close>, so the
  fields of \<open>Milestone\<close> carry the prefix \<open>m_\<close> and those of \<open>Commit\<close> the prefix \<open>c_\<close>.
  \<open>commit_hash: Optional[str]\<close> is an option, \<open>None\<close> being Python's \<open>None\<close>.
\<close>

record Milestone =
  m_message :: pystr
  m_timestamp :: datetime
  m_tags :: "pystr list"

record Commit =
  c_message :: pystr
  c_milestones :: "Milestone list"
  c_timestamp :: datetime
  c_commit_hash :: "pystr option"

text \<open>
  Reading JSON values at the declared field types. \<open>iterate\<close> is what a \<open>for\<close> loop over
  a JSON value goes through: the elements of a list, the keys of a dict, the characters
  of a string, and a \<open>TypeError\<close> for the rest. \<open>traverse\<close> is a list comprehension whose
  body can raise: the first exception ends it.
\<close>

fun as_str :: "json \<Rightarrow> pystr option" where
  "as_str (JStr s) = Some s"
| "as_str _ = None"

fun as_str_seq :: "json list \<Rightarrow> pystr list option" where
  "as_str_seq [] = Some []"
| "as_str_seq (j # js) =
     (case as_str j of None \<Rightarrow> None
      | Some s \<Rightarrow> (case as_str_seq js of None \<Rightarrow> None | Some ss \<Rightarrow> Some (s # ss)))"

fun as_str_list :: "json \<Rightarrow> pystr list option" where
  "as_str_list (JList js) = as_str_seq js"
| "as_str_list _ = None"

fun as_opt_str :: "json \<Rightarrow> pystr option option" where
  "as_opt_str JNull = Some None"
| "as_opt_str (JStr s) = Some (Some s)"
| "as_opt_str _ = None"

fun iterate :: "json \<Rightarrow> error + json list" where
  "iterate (JList js) = Inr js"
| "iterate (JObj kvs) = Inr (map (\<lambda>kv. JStr (fst kv)) kvs)"
| "iterate (JStr s) = Inr (map (\<lambda>c. JStr [c]) s)"
| "iterate _ = Inl TypeError"

fun traverse :: "('a \<Rightarrow> error + 'b) \<Rightarrow> 'a list \<Rightarrow> error + 'b list" where
  "traverse f [] = Inr []"
| "traverse f (x # xs) =
     (case f x of Inl e \<Rightarrow> Inl e
      | Inr y \<Rightarrow> (case traverse f xs of Inl e \<Rightarrow> Inl e | Inr ys \<Rightarrow> Inr (y # ys)))"

text \<open>\<open>datetime.fromisoformat(v)\<close> for a JSON value: a \<open>TypeError\<close> unless it is a string.\<close>

fun fromisoformat_json :: "json \<Rightarrow> error + datetime" where
  "fromisoformat_json (JStr s) = fromisoformat s"
| "fromisoformat_json _ = Inl TypeError"

definition Milestone_to_dict :: "Milestone \<Rightarrow> json" where
  "Milestone_to_dict m =
     JObj [(py ''message'', JStr (m_message m)),
           (py ''timestamp'', JStr (isoformat (m_timestamp m))),
           (py ''tags'', JList (map JStr (m_tags m)))]"

text \<open>
  \<open>from_dict\<close> evaluates its keyword arguments in order: \<open>data["message"]\<close>,
  \<open>data["timestamp"]\<close>, \<open>fromisoformat\<close>, \<open>data.get("tags", [])\<close>. Subscripting anything but
  a dict with a string is a \<open>TypeError\<close>. Python builds the object whatever the types of
  the values are; the model returns \<open>Ill_typed\<close> then, after every real exception.
\<close>

fun Milestone_from_dict :: "json \<Rightarrow> error + Milestone" where
  "Milestone_from_dict (JObj kvs) =
     (case map_of kvs (py ''message'') of None \<Rightarrow> Inl (KeyError (py ''message''))
      | Some msg \<Rightarrow>
     (case map_of kvs (py ''timestamp'') of None \<Rightarrow> Inl (KeyError (py ''timestamp''))
      | Some ts \<Rightarrow>
     (case fromisoformat_json ts of Inl e \<Rightarrow> Inl e
      | Inr t \<Rightarrow>
     (case as_str msg of None \<Rightarrow> Inl Ill_typed
      | Some body \<Rightarrow>
     (case as_str_list (case map_of kvs (py ''tags'') of None \<Rightarrow> JList [] | Some v \<Rightarrow> v) of
        None \<Rightarrow> Inl Ill_typed
      | Some tgs \<Rightarrow> Inr \<lparr>m_message = body, m_timestamp = t, m_tags = tgs\<rparr>)))))"
| "Milestone_from_dict _ = Inl TypeError"

definition json_of_opt_str :: "pystr option \<Rightarrow> json" where
  "json_of_opt_str h = (case h of None \<Rightarrow> JNull | Some s \<Rightarrow> JStr s)"

definition Commit_to_dict :: "Commit \<Rightarrow> json" where
  "Commit_to_dict c =
     JObj [(py ''message'', JStr (c_message c)),
           (py ''milestones'', JList (map Milestone_to_dict (c_milestones c))),
           (py ''timestamp'', JStr (isoformat (c_timestamp c))),
           (py ''commit_hash'', json_of_opt_str (c_commit_hash c))]"

fun Commit_from_dict :: "json \<Rightarrow> error + Commit" where
  "Commit_from_dict (JObj kvs) =
     (case map_of kvs (py ''message'') of None \<Rightarrow> Inl (KeyError (py ''message''))
      | Some msg \<Rightarrow>
     (case map_of kvs (py ''milestones'') of None \<Rightarrow> Inl (KeyError (py ''milestones''))
      | Some mss \<Rightarrow>
     (case iterate mss of Inl e \<Rightarrow> Inl e
      | Inr items \<Rightarrow>
     (case traverse Milestone_from_dict items of Inl e \<Rightarrow> Inl e
      | Inr ms \<Rightarrow>
     (case map_of kvs (py ''timestamp'') of None \<Rightarrow> Inl (KeyError (py ''timestamp''))
      | Some ts \<Rightarrow>
     (case fromisoformat_json ts of Inl e \<Rightarrow> Inl e
      | Inr t \<Rightarrow>
     (case as_str msg of None \<Rightarrow> Inl Ill_typed
      | Some body \<Rightarrow>
     (case as_opt_str (case map_of kvs (py ''commit_hash'') of None \<Rightarrow> JNull | Some v \<Rightarrow> v) of
        None \<Rightarrow> Inl Ill_typed
      | Some h \<Rightarrow>
          Inr \<lparr>c_message = body, c_milestones = ms, c_timestamp = t,
               c_commit_hash = h\<rparr>))))))))"
| "Commit_from_dict _ = Inl TypeError"

section \<open>Repository\<close>

text \<open>
  The state on disk under one root directory: whether \<open>.gyt\<close> exists, and the text of the
  three files in it (\<open>None\<close> for a file that does not exist). A text is either the
  rendering of a JSON value, which is what the program writes with \<open>json.dumps\<close> and what
  \<open>json.loads\<close> reads back, or something that is not JSON. A file exists only inside an
  existing directory, so the files are read through \<open>read_text\<close>. \<open>writes\<close> counts the calls
  of \<open>write_text\<close> made so far; the program never reads it.
\<close>

datatype contents = Json_text json | Other_text

record repo =
  gyt_dir :: bool
  staging_file :: "contents option"
  commits_file :: "contents option"
  config_file :: "contents option"
  writes :: nat

definition read_text :: "(repo \<Rightarrow> contents option) \<Rightarrow> repo \<Rightarrow> contents option" where
  "read_text file s = (if gyt_dir s then file s else None)"

fun json_loads :: "contents \<Rightarrow> error + json" where
  "json_loads (Json_text j) = Inr j"
| "json_loads Other_text = Inl JSONDecodeError"

definition json_dumps :: "json \<Rightarrow> contents" where
  "json_dumps j = Json_text j"

text \<open>\<open>write_text\<close> on each of the three paths; the directory must exist.\<close>

definition write_staging :: "contents \<Rightarrow> repo \<Rightarrow> error + repo" where
  "write_staging t s =
     (if gyt_dir s then Inr (s\<lparr>staging_file := Some t, writes := Suc (writes s)\<rparr>)
      else Inl FileNotFoundError)"

definition write_commits :: "contents \<Rightarrow> repo \<Rightarrow> error + repo" where
  "write_commits t s =
     (if gyt_dir s then Inr (s\<lparr>commits_file := Some t, writes := Suc (writes s)\<rparr>)
      else Inl FileNotFoundError)"


definition default_config :: json where
  "default_config =
     JObj [(py ''user'', JObj [(py ''name'', JStr []), (py ''email'', JStr [])]),
           (py ''remote'', JObj [(py ''url'', JStr [])])]"

definition init :: "repo \<Rightarrow> bool \<times> repo" where
  "init s =
     (if gyt_dir s then (False, s)
      else (True, s\<lparr>gyt_dir := True,
                      staging_file := Some (Json_text (JList [])),
                      commits_file := Some (Json_text (JList [])),
                      config_file := Some (json_dumps default_config),
                      writes := writes s + 3\<rparr>))"

definition is_initialized :: "repo \<Rightarrow> bool" where
  "is_initialized s = gyt_dir s"

definition get_staged_milestones :: "repo \<Rightarrow> error + Milestone list" where
  "get_staged_milestones s =
     (case read_text staging_file s of None \<Rightarrow> Inr []
      | Some t \<Rightarrow>
     (case json_loads t of Inl e \<Rightarrow> Inl e
      | Inr data \<Rightarrow>
     (case iterate data of Inl e \<Rightarrow> Inl e
      | Inr items \<Rightarrow> traverse Milestone_from_dict items)))"


definition clear_staging :: "repo \<Rightarrow> error + repo" where
  "clear_staging s = write_staging (Json_text (JList [])) s"

definition get_commits :: "repo \<Rightarrow> error + Commit list" where
  "get_commits s =
     (case read_text commits_file s of None \<Rightarrow> Inr []
      | Some t \<Rightarrow>
     (case json_loads t of Inl e \<Rightarrow> Inl e
      | Inr data \<Rightarrow>
     (case iterate data of Inl e \<Rightarrow> Inl e
      | Inr items \<Rightarrow> traverse Commit_from_dict items)))"

text \<open>
  \<open>add_commit\<close> changes its argument in place, so the model returns the commit object as
  it is when the call ends, together with the exception raised or the new state. The
  hash is assigned after the history has been read and before the file is written.
\<close>

definition hash_input :: "Commit \<Rightarrow> pystr" where
  "hash_input commit = isoformat (c_timestamp commit) @ c_message commit"

definition add_commit :: "Commit \<Rightarrow> repo \<Rightarrow> Commit \<times> (error + repo)" where
  "add_commit commit s =
     (case get_commits s of Inl e \<Rightarrow> (commit, Inl e)
      | Inr commits \<Rightarrow>
     (case encode (hash_input commit) of Inl e \<Rightarrow> (commit, Inl e)
      | Inr bs \<Rightarrow>
          (let commit' = commit\<lparr>c_commit_hash := Some (take 8 (hexdigest (sha256 bs)))\<rparr>
           in (commit',
               write_commits (json_dumps (JList (map Commit_to_dict (commits @ [commit'])))) s))))"

definition get_config :: "repo \<Rightarrow> error + json" where
  "get_config s =
     (case read_text config_file s of None \<Rightarrow> Inr (JObj []) | Some t \<Rightarrow> json_loads t)"

text \<open>\<open>key.split(".")\<close>: never an empty list.\<close>

fun split :: "nat \<Rightarrow> pystr \<Rightarrow> pystr list" where
  "split sep [] = [[]]"
| "split sep (c # s) =
     (if c = sep then [] # split sep s
      else (case split sep s of [] \<Rightarrow> [[c]] | w # ws \<Rightarrow> (c # w) # ws))"



text \<open>Following a dotted path through nested dicts, as a reader of the configuration does.\<close>

fun lookup_path :: "pystr list \<Rightarrow> json \<Rightarrow> json option" where
  "lookup_path [] j = Some j"
| "lookup_path (k # ks) (JObj kvs) =
     (case map_of kvs k of None \<Rightarrow> None | Some child \<Rightarrow> lookup_path ks child)"
| "lookup_path (k # ks) _ = None"

section \<open>Commands\<close>

text \<open>
  The commands \<open>commit\<close> and \<open>push\<close> of \<open>cli.py\<close>. What a command does besides changing
  the repository is a list of effects: each call of \<open>console.print\<close>, identified by the
  message it prints (the values formatted into it as arguments), and each HTTP request.
  A command ends by returning (exit status 0), by \<open>typer.Exit(n)\<close>, or by an exception
  that nothing catches, which ends the process with status 1.
\<close>

datatype message =
    Not_a_gyt_repository
  | No_milestones_staged
  | Committed nat pystr
  | Commit_hash_is "pystr option"
  | No_remote_configured
  | No_commits_to_push
  | Pushing nat json
  | Push_not_implemented

datatype effect = Print message | Http_post json

datatype outcome = Returned | Exit nat | Raised error

fun exit_code :: "outcome \<Rightarrow> nat" where
  "exit_code Returned = 0"
| "exit_code (Exit n) = n"
| "exit_code (Raised e) = 1"

record run =
  outcome :: outcome
  effects :: "effect list"
  final :: repo

text \<open>
  \<open>commit(message)\<close>. \<open>now\<close> is the value of \<open>datetime.now()\<close> when the \<open>Commit\<close> is built.
  \<open>ensure_repo\<close> is the first branch.
\<close>

definition commit :: "pystr \<Rightarrow> datetime \<Rightarrow> repo \<Rightarrow> run" where
  "commit msg now s =
     (if \<not> is_initialized s then
        \<lparr>outcome = Exit 1, effects = [Print Not_a_gyt_repository], final = s\<rparr>
      else case get_staged_milestones s of
        Inl e \<Rightarrow> \<lparr>outcome = Raised e, effects = [], final = s\<rparr>
      | Inr staged \<Rightarrow>
          if staged = [] then
            \<lparr>outcome = Exit 1, effects = [Print No_milestones_staged], final = s\<rparr>
          else
            (case add_commit \<lparr>c_message = msg, c_milestones = staged, c_timestamp = now,
                                c_commit_hash = None\<rparr> s of
               (c, Inl e) \<Rightarrow> \<lparr>outcome = Raised e, effects = [], final = s\<rparr>
             | (c, Inr s1) \<Rightarrow>
                 (case clear_staging s1 of
                    Inl e \<Rightarrow> \<lparr>outcome = Raised e, effects = [], final = s1\<rparr>
                  | Inr s2 \<Rightarrow>
                      \<lparr>outcome = Returned,
                       effects = [Print (Committed (length staged) msg),
                                  Print (Commit_hash_is (c_commit_hash c))],
                       final = s2\<rparr>)))"

text \<open>
  Python's truth value of a JSON value, and \<open>d.get(k, default)\<close>, which only a dict has.
\<close>

fun truthy :: "json \<Rightarrow> bool" where
  "truthy JNull = False"
| "truthy (JBool b) = b"
| "truthy (JNum n) = (n \<noteq> 0)"
| "truthy (JStr s) = (s \<noteq> [])"
| "truthy (JList js) = (js \<noteq> [])"
| "truthy (JObj kvs) = (kvs \<noteq> [])"

fun dict_get :: "json \<Rightarrow> pystr \<Rightarrow> json \<Rightarrow> error + json" where
  "dict_get (JObj kvs) k dflt = Inr (case map_of kvs k of None \<Rightarrow> dflt | Some v \<Rightarrow> v)"
| "dict_get _ k dflt = Inl AttributeError"

text \<open>
  \<open>remote or config.get("remote", {}).get("url", "")\<close>: the right operand is evaluated
  only when the flag is absent or empty.
\<close>

definition config_remote_url :: "json \<Rightarrow> error + json" where
  "config_remote_url config =
     (case dict_get config (py ''remote'') (JObj []) of Inl e \<Rightarrow> Inl e
      | Inr r \<Rightarrow> dict_get r (py ''url'') (JStr []))"

definition resolve_remote :: "pystr option \<Rightarrow> json \<Rightarrow> error + json" where
  "resolve_remote remote config =
     (case remote of None \<Rightarrow> config_remote_url config
      | Some r \<Rightarrow> if r \<noteq> [] then Inr (JStr r) else config_remote_url config)"

definition push :: "pystr option \<Rightarrow> repo \<Rightarrow> run" where
  "push remote s =
     (if \<not> is_initialized s then
        \<lparr>outcome = Exit 1, effects = [Print Not_a_gyt_repository], final = s\<rparr>
      else case get_config s of
        Inl e \<Rightarrow> \<lparr>outcome = Raised e, effects = [], final = s\<rparr>
      | Inr config \<Rightarrow>
     (case resolve_remote remote config of
        Inl e \<Rightarrow> \<lparr>outcome = Raised e, effects = [], final = s\<rparr>
      | Inr remote_url \<Rightarrow>
          if \<not> truthy remote_url then
            \<lparr>outcome = Exit 1, effects = [Print No_remote_configured], final = s\<rparr>
          else
     (case get_commits s of
        Inl e \<Rightarrow> \<lparr>outcome = Raised e, effects = [], final = s\<rparr>
      | Inr commits \<Rightarrow>
          if commits = [] then
            \<lparr>outcome = Returned, effects = [Print No_commits_to_push], final = s\<rparr>
          else
            \<lparr>outcome = Returned,
             effects = [Print (Pushing (length commits) remote_url),
                        Print Push_not_implemented],
             final = s\<rparr>)))"

section \<open>Concrete states\<close>

text \<open>A root directory with no \<open>.gyt\<close> in it, and the repository \<open>init\<close> makes of it.\<close>

definition empty_root :: repo where
  "empty_root =
     \<lparr>gyt_dir = False, staging_file = None, commits_file = None, config_file = None,
      writes = 0\<rparr>"

definition fresh_repo :: repo where
  "fresh_repo = snd (init empty_root)"

definition new_year :: datetime where
  "new_year =
     \<lparr>year = 2024, month = 1, day = 1, hour = 0, minute = 0, second = 0, microsecond = 0\<rparr>"

text \<open>The configuration has no remote URL: following \<open>remote.url\<close> finds nothing or \<open>""\<close>.\<close>

definition no_remote_url :: "json \<Rightarrow> bool" where
  "no_remote_url config =
     (case lookup_path [py ''remote'', py ''url''] config of None \<Rightarrow> True
      | Some u \<Rightarrow> u = JStr [])"

section \<open>Well-formed objects\<close>

text \<open>
  A milestone or a commit whose timestamps satisfy the invariant of \<open>datetime\<close>, and two
  concrete objects.
\<close>

definition valid_milestone :: "Milestone \<Rightarrow> bool" where
  "valid_milestone m = valid_datetime (m_timestamp m)"

definition valid_commit :: "Commit \<Rightarrow> bool" where
  "valid_commit c =
     (valid_datetime (c_timestamp c) \<and> list_all valid_milestone (c_milestones c))"

definition wrote_docs :: Milestone where
  "wrote_docs = \<lparr>m_message = py ''wrote docs'', m_timestamp = new_year, m_tags = [py ''docs'']\<rparr>"

definition day_one :: Commit where
  "day_one = \<lparr>c_message = py ''day 1'', c_milestones = [wrote_docs], c_timestamp = new_year,
     c_commit_hash = None\<rparr>"

section \<open>Sequences of calls\<close>


definition fixed_typo :: Milestone where
  "fixed_typo = \<lparr>m_message = py ''fixed typo'', m_timestamp = new_year, m_tags = []\<rparr>"

section \<open>Strings that can be encoded\<close>

text \<open>
  The code points UTF-8 can encode are the Unicode scalar values: every code point but
  the surrogates.
\<close>

definition is_scalar :: "nat \<Rightarrow> bool" where
  "is_scalar c = (c < 0xD800 \<or> (0xDFFF < c \<and> c < 0x110000))"

definition encodable :: "pystr \<Rightarrow> bool" where
  "encodable s = list_all is_scalar s"

section \<open>More concrete states and commits\<close>

text \<open>
  A repository with one staged milestone; a commit whose message is a lone surrogate;
  and two commits with different timestamps and messages: midnight with the message
  \<open>.000001\<close>, and one microsecond past midnight with the empty message.
\<close>

definition one_staged :: repo where
  "one_staged =
     \<lparr>gyt_dir = True, staging_file = Some (Json_text (JList [Milestone_to_dict wrote_docs])),
      commits_file = Some (Json_text (JList [])), config_file = Some (Json_text default_config),
      writes = 4\<rparr>"

definition surrogate_commit :: Commit where
  "surrogate_commit =
     \<lparr>c_message = [0xD800], c_milestones = [wrote_docs], c_timestamp = new_year,
      c_commit_hash = None\<rparr>"

definition dotted_commit :: Commit where
  "dotted_commit =
     \<lparr>c_message = py ''.000001'', c_milestones = [wrote_docs], c_timestamp = new_year,
      c_commit_hash = None\<rparr>"

definition microsecond_commit :: Commit where
  "microsecond_commit =
     \<lparr>c_message = [], c_milestones = [wrote_docs],
      c_timestamp = new_year\<lparr>microsecond := 1\<rparr>, c_commit_hash = None\<rparr>"

section \<open>Paths through the configuration\<close>


section \<open>Decimal numbers and timestamps\<close>

lemma digit_val_digit [simp]: "v < 10 \<Longrightarrow> digit_val (digit v) = Some v"
  by (simp add: digit_def digit_val_def)

lemma digits_acc_digit:
  "v < 10 \<Longrightarrow> digits_acc (Suc n) acc (digit v # s) = digits_acc n (acc * 10 + v) s"
  by (simp add: digit_def digit_val_def)

lemma length_str_nat_le: "n < 10 ^ w \<Longrightarrow> 0 < w \<Longrightarrow> length (str_nat n) \<le> w"
proof (induction n arbitrary: w rule: str_nat.induct)
  case (1 n)
  show ?case
  proof (cases "n < 10")
    case True
    then show ?thesis using "1.prems" by (simp add: str_nat.simps[of n])
  next
    case False
    then obtain w' where w: "w = Suc w'" using "1.prems" by (cases w) auto
    have "0 < w'" using False "1.prems" w by (cases w') auto
    moreover have "n div 10 < 10 ^ w'" using "1.prems" w by (simp add: less_mult_imp_div_less mult.commute)
    ultimately have "length (str_nat (n div 10)) \<le> w'" using "1.IH"[OF False] by simp
    then show ?thesis using False w by (simp add: str_nat.simps[of n])
  qed
qed

lemma digits_acc_str_nat:
  "digits_acc (length (str_nat n) + k) acc (str_nat n @ s) =
   digits_acc k (acc * 10 ^ length (str_nat n) + n) s"
proof (induction n arbitrary: acc k s rule: str_nat.induct)
  case (1 n)
  show ?case
  proof (cases "n < 10")
    case True
    then show ?thesis by (simp add: str_nat.simps[of n] digits_acc_digit)
  next
    case False
    let ?l = "length (str_nat (n div 10))"
    have sn: "str_nat n = str_nat (n div 10) @ [digit (n mod 10)]"
      using False by (simp add: str_nat.simps[of n])
    have "digits_acc (length (str_nat n) + k) acc (str_nat n @ s)
        = digits_acc (?l + Suc k) acc (str_nat (n div 10) @ (digit (n mod 10) # s))"
      by (simp add: sn)
    also have "\<dots> = digits_acc (Suc k) (acc * 10 ^ ?l + n div 10) (digit (n mod 10) # s)"
      by (rule "1.IH"[OF False])
    also have "\<dots> = digits_acc k ((acc * 10 ^ ?l + n div 10) * 10 + n mod 10) s"
      by (simp add: digits_acc_digit)
    also have "(acc * 10 ^ ?l + n div 10) * 10 + n mod 10 = acc * 10 ^ length (str_nat n) + n"
      by (simp add: sn algebra_simps)
    finally show ?thesis .
  qed
qed

lemma digits_acc_zeros:
  "digits_acc (j + k) 0 (replicate j (digit 0) @ s) = digits_acc k 0 s"
  by (induction j) (simp_all add: digits_acc_digit)

lemma digits_zfill:
  assumes "n < 10 ^ w" "0 < w"
  shows "digits w (zfill w n @ s) = Some (n, s)"
proof -
  let ?l = "length (str_nat n)"
  have le: "?l \<le> w" using assms by (rule length_str_nat_le)
  have "digits_acc ((w - ?l) + (?l + 0)) 0 (replicate (w - ?l) (digit 0) @ (str_nat n @ s))
        = digits_acc (?l + 0) 0 (str_nat n @ s)"
    by (rule digits_acc_zeros)
  also have "\<dots> = digits_acc 0 (0 * 10 ^ ?l + n) s"
    by (rule digits_acc_str_nat)
  finally show ?thesis using le by (simp add: digits_def zfill_def)
qed

lemma length_zfill: "n < 10 ^ w \<Longrightarrow> 0 < w \<Longrightarrow> length (zfill w n) = w"
  using length_str_nat_le[of n w] by (simp add: zfill_def)

lemma digits_zfill_end: "n < 10 ^ w \<Longrightarrow> 0 < w \<Longrightarrow> digits w (zfill w n) = Some (n, [])"
  using digits_zfill[of n w "[]"] by simp

lemma fromisoformat_isoformat:
  assumes "valid_datetime d"
  shows "fromisoformat (isoformat d) = Inr d"
proof -
  have y: "year d < 10 ^ 4" "0 < (4::nat)" and m: "month d < 10 ^ 2" "0 < (2::nat)" and dd: "day d < 10 ^ 2"
    and h: "hour d < 10 ^ 2" and mi: "minute d < 10 ^ 2" and s: "second d < 10 ^ 2"
    and us: "microsecond d < 10 ^ 6" "0 < (6::nat)"
    using assms by (auto simp: valid_datetime_def days_in_month_def split: if_splits)
  have frac: "parse_fraction (zfill 6 (microsecond d)) = Some (microsecond d)"
    using digits_zfill_end[OF us] length_zfill[OF us] by (simp add: parse_fraction_def)
  note dz = digits_zfill[OF y] digits_zfill[OF m] digits_zfill[OF dd m(2)]
     digits_zfill[OF h m(2)] digits_zfill[OF mi m(2)] digits_zfill[OF s m(2)] digits_zfill_end[OF s m(2)]
  have ne: "zfill 6 (microsecond d) \<noteq> []" using length_zfill[OF us] by auto
  have eta: "\<lparr>year = year d, month = month d, day = day d, hour = hour d,
      minute = minute d, second = second d, microsecond = microsecond d\<rparr> = d"
    by simp
  have parsed: "parse_date (isoformat d) = Some ((year d, month d, day d), drop 10 (isoformat d))"
    by (simp add: parse_date_def isoformat_def py_def dz length_zfill[OF y] length_zfill[OF m]
        length_zfill[OF dd m(2)])
  have timed: "parse_time_part (drop 10 (isoformat d)) =
      Some (hour d, minute d, second d, microsecond d)"
    by (simp add: parse_time_part_def parse_time_def isoformat_def py_def dz frac ne
        length_zfill[OF y] length_zfill[OF m] length_zfill[OF dd m(2)])
  show ?thesis using assms
    by (simp add: fromisoformat_def parsed timed eta)
qed

lemma fromisoformat_valid: "fromisoformat t = Inr d \<Longrightarrow> valid_datetime d"
  by (auto simp: fromisoformat_def Let_def split: option.splits if_splits)

section \<open>The fresh repository\<close>

lemma fresh_repo_eq:
  "fresh_repo = \<lparr>gyt_dir = True, staging_file = Some (Json_text (JList [])),
     commits_file = Some (Json_text (JList [])), config_file = Some (Json_text default_config),
     writes = 3\<rparr>"
  by (simp add: fresh_repo_def init_def empty_root_def json_dumps_def)

lemma get_staged_fresh: "get_staged_milestones fresh_repo = Inr []"
  by (simp add: fresh_repo_eq get_staged_milestones_def read_text_def)

lemma get_commits_fresh: "get_commits fresh_repo = Inr []"
  by (simp add: fresh_repo_eq get_commits_def read_text_def)

lemma get_config_fresh: "get_config fresh_repo = Inr default_config"
  by (simp add: fresh_repo_eq get_config_def read_text_def)

section \<open>Initialize\<close>

text \<open>
  C4. \<open>init\<close> on a root without \<open>.gyt\<close> returns \<open>True\<close> and leaves the directory with an
  empty staging array, an empty commits array and the default configuration, in which
  \<open>user.name\<close>, \<open>user.email\<close> and \<open>remote.url\<close> are empty strings; on a root that has
  \<open>.gyt\<close> it returns \<open>False\<close> and the state, the write count included, is the one it
  was given.
\<close>

theorem init_creates_or_refuses:
  "(\<not> gyt_dir s \<longrightarrow>
      fst (init s) = True \<and> gyt_dir (snd (init s)) \<and>
      read_text staging_file (snd (init s)) = Some (Json_text (JList [])) \<and>
      read_text commits_file (snd (init s)) = Some (Json_text (JList [])) \<and>
      get_config (snd (init s)) = Inr default_config \<and>
      lookup_path [py ''user'', py ''name''] default_config = Some (JStr []) \<and>
      lookup_path [py ''user'', py ''email''] default_config = Some (JStr []) \<and>
      lookup_path [py ''remote'', py ''url''] default_config = Some (JStr [])) \<and>
   (gyt_dir s \<longrightarrow> init s = (False, s))"
  by (simp add: init_def read_text_def get_config_def json_dumps_def default_config_def py_def)

theorem init_creates_or_refuses_witness:
  "\<not> gyt_dir empty_root \<and> fst (init empty_root) = True \<and>
   get_config (snd (init empty_root)) = Inr default_config \<and>
   gyt_dir fresh_repo \<and> init fresh_repo = (False, fresh_repo)"
  using init_creates_or_refuses [of empty_root] init_creates_or_refuses [of fresh_repo]
  by (simp add: empty_root_def fresh_repo_eq)

section \<open>The commit command on an empty staging area\<close>

text \<open>
  C6. When nothing is staged, \<open>commit\<close> ends with exit status 1 and the repository is
  the one it started with: no file has changed and no write has been made.
\<close>

theorem commit_nothing_staged:
  "get_staged_milestones s = Inr [] \<Longrightarrow>
     outcome (commit msg now s) = Exit 1 \<and> exit_code (outcome (commit msg now s)) = 1 \<and>
     final (commit msg now s) = s \<and> writes (final (commit msg now s)) = writes s"
  by (simp add: commit_def)

theorem commit_nothing_staged_witness:
  "get_staged_milestones fresh_repo = Inr [] \<and>
   outcome (commit (py ''day 1'') new_year fresh_repo) = Exit 1 \<and>
   final (commit (py ''day 1'') new_year fresh_repo) = fresh_repo"
  using commit_nothing_staged [of fresh_repo "py ''day 1''" new_year] get_staged_fresh
  by simp

section \<open>The push command\<close>

lemma push_effects: "e \<in> set (effects (push remote s)) \<Longrightarrow> \<exists>m. e = Print m"
  by (auto simp: push_def split: if_splits sum.splits)

lemma push_final: "final (push remote s) = s"
  by (simp add: push_def split: sum.splits)

lemma no_remote_url_falsy:
  "no_remote_url config \<Longrightarrow> config_remote_url config = Inr u \<Longrightarrow> \<not> truthy u"
  apply (cases config)
  apply (auto simp: no_remote_url_def config_remote_url_def split: option.splits sum.splits)
  subgoal for kvs r by (cases r) (auto split: option.splits)
  subgoal for kvs r by (cases r) (auto split: option.splits)
  done

text \<open>
  C8. With no \<open>--remote\<close> flag and a configuration without a remote URL, \<open>push\<close> ends
  with exit status 1 and prints no \<open>Pushing\<close> message. Whatever the flag and the state,
  \<open>push\<close> makes no HTTP request and leaves the repository as it was.
\<close>

theorem push_needs_remote:
  "(get_config s = Inr config \<and> no_remote_url config \<longrightarrow>
      exit_code (outcome (push None s)) = 1 \<and>
      (\<forall>n u. Print (Pushing n u) \<notin> set (effects (push None s)))) \<and>
   (\<forall>j. Http_post j \<notin> set (effects (push remote s))) \<and>
   final (push remote s) = s"
proof (intro conjI impI allI)
  assume a: "get_config s = Inr config \<and> no_remote_url config"
  show "exit_code (outcome (push None s)) = 1"
    using a no_remote_url_falsy[of config]
    by (auto simp: push_def resolve_remote_def split: sum.splits)
  show "\<And>n u. Print (Pushing n u) \<notin> set (effects (push None s))"
    using a no_remote_url_falsy[of config]
    by (auto simp: push_def resolve_remote_def split: sum.splits)
next
  show "\<And>j. Http_post j \<notin> set (effects (push remote s))"
    using push_effects[of _ remote s] by blast
  show "final (push remote s) = s" by (rule push_final)
qed

theorem push_needs_remote_witness:
  "get_config fresh_repo = Inr default_config \<and> no_remote_url default_config \<and>
   exit_code (outcome (push None fresh_repo)) = 1 \<and>
   Print (Pushing 0 (JStr [])) \<notin> set (effects (push None fresh_repo))"
  using push_needs_remote [of fresh_repo default_config None] get_config_fresh
  by (simp add: no_remote_url_def default_config_def py_def)

section \<open>Serialization\<close>

lemma as_str_seq_map: "as_str_seq (map JStr xs) = Some xs"
  by (induction xs) simp_all

lemma keys_distinct:
  "py ''message'' \<noteq> py ''timestamp''" "py ''message'' \<noteq> py ''tags''"
  "py ''timestamp'' \<noteq> py ''tags''" "py ''message'' \<noteq> py ''milestones''"
  "py ''milestones'' \<noteq> py ''timestamp''" "py ''message'' \<noteq> py ''commit_hash''"
  "py ''milestones'' \<noteq> py ''commit_hash''" "py ''timestamp'' \<noteq> py ''commit_hash''"
  by (simp_all add: py_def)

lemma Milestone_roundtrip:
  "valid_milestone m \<Longrightarrow> Milestone_from_dict (Milestone_to_dict m) = Inr m"
  using keys_distinct
  by (simp add: Milestone_to_dict_def valid_milestone_def fromisoformat_isoformat as_str_seq_map
      keys_distinct[symmetric])

lemma traverse_map_roundtrip:
  "(\<And>x. x \<in> set xs \<Longrightarrow> f (g x) = Inr x) \<Longrightarrow> traverse f (map g xs) = Inr xs"
  by (induction xs) simp_all

lemma traverse_Milestone_roundtrip:
  "list_all valid_milestone ms \<Longrightarrow>
     traverse Milestone_from_dict (map Milestone_to_dict ms) = Inr ms"
  by (rule traverse_map_roundtrip) (simp add: list_all_iff Milestone_roundtrip)

lemma as_opt_str_roundtrip: "as_opt_str (json_of_opt_str h) = Some h"
  by (cases h) (simp_all add: json_of_opt_str_def)

lemma Commit_roundtrip:
  "valid_commit c \<Longrightarrow> Commit_from_dict (Commit_to_dict c) = Inr c"
  using keys_distinct
  by (simp add: Commit_to_dict_def valid_commit_def fromisoformat_isoformat
      traverse_Milestone_roundtrip as_opt_str_roundtrip keys_distinct[symmetric])

lemma valid_new_year: "valid_datetime new_year"
  by (simp add: new_year_def valid_datetime_def days_in_month_def)

lemma traverse_all:
  "traverse f xs = Inr ys \<Longrightarrow> (\<And>x y. f x = Inr y \<Longrightarrow> P y) \<Longrightarrow> list_all P ys"
  by (induction xs arbitrary: ys) (auto split: sum.splits)

lemma fromisoformat_json_valid: "fromisoformat_json j = Inr d \<Longrightarrow> valid_datetime d"
  by (cases j) (auto dest: fromisoformat_valid)

lemma Milestone_from_dict_valid: "Milestone_from_dict j = Inr m \<Longrightarrow> valid_milestone m"
  by (cases j)
    (auto simp: valid_milestone_def split: option.splits sum.splits dest: fromisoformat_json_valid)

lemma traverse_Milestone_valid:
  "traverse Milestone_from_dict xs = Inr ms \<Longrightarrow> list_all valid_milestone ms"
  by (erule traverse_all) (rule Milestone_from_dict_valid)

lemma Commit_from_dict_valid: "Commit_from_dict j = Inr c \<Longrightarrow> valid_commit c"
  by (cases j)
    (auto simp: valid_commit_def split: option.splits sum.splits
      dest: fromisoformat_json_valid traverse_Milestone_valid)

lemma traverse_Commit_valid:
  "traverse Commit_from_dict xs = Inr cs \<Longrightarrow> list_all valid_commit cs"
  by (erule traverse_all) (rule Commit_from_dict_valid)



section \<open>Staging and committing\<close>

lemma get_staged_valid:
  "get_staged_milestones s = Inr xs \<Longrightarrow> list_all valid_milestone xs"
  by (auto simp: get_staged_milestones_def split: option.splits sum.splits
      dest: traverse_Milestone_valid)

lemma get_commits_valid: "get_commits s = Inr cs \<Longrightarrow> list_all valid_commit cs"
  by (auto simp: get_commits_def split: option.splits sum.splits dest: traverse_Commit_valid)







lemma get_commits_written:
  "gyt_dir s \<Longrightarrow> list_all valid_commit cs \<Longrightarrow>
   get_commits (s\<lparr>commits_file := Some (Json_text (JList (map Commit_to_dict cs))),
      writes := w\<rparr>) = Inr cs"
  by (simp add: get_commits_def read_text_def traverse_map_roundtrip list_all_iff Commit_roundtrip)

lemma add_commit_appends:
  assumes "is_initialized s" "get_commits s = Inr cs" "valid_commit c"
    "encode (hash_input c) = Inr bs"
  shows "\<exists>s'. add_commit c s = (c\<lparr>c_commit_hash := Some (take 8 (hexdigest (sha256 bs)))\<rparr>, Inr s') \<and>
     is_initialized s' \<and> staging_file s' = staging_file s \<and>
     get_commits s' = Inr (cs @ [c\<lparr>c_commit_hash := Some (take 8 (hexdigest (sha256 bs)))\<rparr>])"
proof -
  let ?c = "c\<lparr>c_commit_hash := Some (take 8 (hexdigest (sha256 bs)))\<rparr>"
  have "list_all valid_commit (cs @ [?c])"
    using get_commits_valid[OF assms(2)] assms(3) by (simp add: valid_commit_def)
  then show ?thesis
    using assms(1,2,4) get_commits_written[of s "cs @ [?c]"]
    by (simp add: add_commit_def write_commits_def json_dumps_def is_initialized_def Let_def)
qed

lemma get_commits_clear_staging:
  "clear_staging s = Inr s' \<Longrightarrow> get_commits s' = get_commits s"
  by (auto simp: clear_staging_def write_staging_def get_commits_def read_text_def split: if_splits)

lemma get_staged_clear_staging:
  "is_initialized s \<Longrightarrow> \<exists>s'. clear_staging s = Inr s' \<and> get_staged_milestones s' = Inr []"
  by (simp add: clear_staging_def write_staging_def get_staged_milestones_def read_text_def
      is_initialized_def)

section \<open>Encoding and digests\<close>

lemma encode_char_scalar: "(encode_char c = None) = (\<not> is_scalar c)"
  by (auto simp: encode_char_def is_scalar_def)

lemma encode_encodable: "encodable s \<Longrightarrow> \<exists>bs. encode s = Inr bs"
  by (induction s) (auto simp: encodable_def encode_char_scalar split: option.splits)

lemma encode_not_encodable: "\<not> encodable s \<Longrightarrow> encode s = Inl UnicodeEncodeError"
proof (induction s)
  case Nil
  then show ?case by (simp add: encodable_def)
next
  case (Cons c s)
  show ?case
  proof (cases "is_scalar c")
    case True
    then have "\<not> encodable s" using Cons.prems by (simp add: encodable_def)
    then show ?thesis using Cons.IH by (simp split: option.splits)
  next
    case False
    then have "encode_char c = None" by (simp add: encode_char_scalar)
    then show ?thesis by simp
  qed
qed

lemma encodable_append: "encodable (a @ b) = (encodable a \<and> encodable b)"
  by (simp add: encodable_def)

lemma str_nat_digits: "list_all (\<lambda>c. 48 \<le> c \<and> c \<le> 57) (str_nat n)"
proof (induction n rule: str_nat.induct)
  case (1 n)
  show ?case
  proof (cases "n < 10")
    case True
    then show ?thesis by (simp add: str_nat.simps[of n] digit_def)
  next
    case False
    have "n mod 10 < 10" by simp
    then have "digit (n mod 10) \<le> 57" unfolding digit_def by linarith
    then show ?thesis using False "1.IH" by (simp add: str_nat.simps[of n] digit_def)
  qed
qed

lemma encodable_str_nat: "encodable (str_nat n)"
  using str_nat_digits[of n] by (auto simp: encodable_def is_scalar_def list_all_iff)

lemma encodable_zfill: "encodable (zfill w n)"
  by (simp add: zfill_def encodable_append encodable_str_nat)
    (simp add: encodable_def list_all_iff digit_def is_scalar_def)

lemma encodable_isoformat: "encodable (isoformat d)"
  by (simp add: isoformat_def encodable_append encodable_zfill)
    (simp add: encodable_def py_def is_scalar_def)

lemma encodable_hash_input: "encodable (hash_input c) = encodable (c_message c)"
  by (simp add: hash_input_def encodable_append encodable_isoformat)

lemma length_hexdigest: "length (hexdigest bs) = 2 * length bs"
  by (induction bs) (simp_all add: hexdigest_def hex_byte_def)

lemma take_hexdigest: "take (2 * n) (hexdigest bs) = hexdigest (take n bs)"
proof (induction bs arbitrary: n)
  case Nil
  then show ?case by (simp add: hexdigest_def)
next
  case (Cons b bs)
  show ?case
  proof (cases n)
    case 0
    then show ?thesis by (simp add: hexdigest_def)
  next
    case (Suc k)
    have "take (2 * k) (hexdigest bs) = hexdigest (take k bs)" by (rule Cons.IH)
    then show ?thesis using Suc by (simp add: hexdigest_def hex_byte_def)
  qed
qed

lemma length_word_bytes: "length (word_bytes w) = 4"
  by (simp add: word_bytes_def)

lemma length_state_bytes: "length (state_bytes st) = 32"
  by (induction st rule: state_bytes.induct) (simp add: length_word_bytes)

lemma length_sha256: "length (sha256 m) = 32"
  by (simp add: sha256_def Let_def length_state_bytes)

lemma hex_digit_lower: "n < 16 \<Longrightarrow> is_lower_hex (hex_digit n)"
  by (auto simp: hex_digit_def is_lower_hex_def)

lemma unat_byte_less: "unat (b :: byte) < 256"
  using unsigned_less[of b, where 'a = nat] by simp

lemma hex_byte_lower: "list_all is_lower_hex (hex_byte b)"
proof -
  have "unat b div 16 < 16" using unat_byte_less[of b] by simp
  then show ?thesis by (simp add: hex_byte_def hex_digit_lower)
qed

lemma hexdigest_lower: "list_all is_lower_hex (hexdigest bs)"
  by (induction bs) (simp_all add: hexdigest_def hex_byte_lower)

lemma hex_digit_inj: "a < 16 \<Longrightarrow> b < 16 \<Longrightarrow> hex_digit a = hex_digit b \<Longrightarrow> a = b"
  by (auto simp: hex_digit_def split: if_splits)

lemma hex_byte_inj: "hex_byte a = hex_byte b \<Longrightarrow> a = b"
proof -
  assume h: "hex_byte a = hex_byte b"
  have la: "unat a div 16 < 16" and lb: "unat b div 16 < 16"
    using unat_byte_less[of a] unat_byte_less[of b] by simp_all
  have d: "unat a div 16 = unat b div 16"
    using h la lb by (auto simp: hex_byte_def intro: hex_digit_inj)
  have m: "unat a mod 16 = unat b mod 16"
    using h by (auto simp: hex_byte_def intro: hex_digit_inj)
  have "unat a = unat b"
    using d m by (metis div_mult_mod_eq)
  then show "a = b" by (rule word_unat_eq_iff[THEN iffD2])
qed

lemma hexdigest_inj: "hexdigest xs = hexdigest ys \<Longrightarrow> xs = ys"
proof (induction xs arbitrary: ys)
  case Nil
  then have "length (hexdigest ys) = 0" by (simp add: hexdigest_def)
  then show ?case by (simp add: length_hexdigest)
next
  case (Cons x xs)
  then obtain y ys' where ys: "ys = y # ys'"
    using length_hexdigest[of ys] length_hexdigest[of "x # xs"] by (cases ys) auto
  from Cons.prems have "hex_byte x @ hexdigest xs = hex_byte y @ hexdigest ys'"
    by (simp add: ys hexdigest_def)
  then have "hex_byte x = hex_byte y" "hexdigest xs = hexdigest ys'"
    by (simp_all add: hex_byte_def)
  then show ?case using Cons.IH hex_byte_inj ys by auto
qed

lemma short_hash_prefix: "take 8 (hexdigest d) = hexdigest (take 4 d)"
  using take_hexdigest[of 4 d] by simp

lemma short_hash_shape:
  "length (take 8 (hexdigest (sha256 bs))) = 8 \<and> list_all is_lower_hex (take 8 (hexdigest (sha256 bs)))"
proof -
  have "list_all is_lower_hex (hexdigest (take 4 (sha256 bs)))" by (rule hexdigest_lower)
  then show ?thesis
    by (simp add: short_hash_prefix length_hexdigest length_sha256)
qed

section \<open>The commit command and the commit hash\<close>

lemma add_commit_fst:
  "get_commits s = Inr cs \<Longrightarrow> encode (hash_input c) = Inr bs \<Longrightarrow>
   fst (add_commit c s) = c\<lparr>c_commit_hash := Some (take 8 (hexdigest (sha256 bs)))\<rparr>"
  by (simp add: add_commit_def Let_def)

lemma add_commit_not_encodable:
  "get_commits s = Inr cs \<Longrightarrow> \<not> encodable (c_message c) \<Longrightarrow>
   add_commit c s = (c, Inl UnicodeEncodeError)"
  using encode_not_encodable[of "hash_input c"]
  by (simp add: add_commit_def encodable_hash_input)

lemma one_staged_reads:
  "is_initialized one_staged" "get_staged_milestones one_staged = Inr [wrote_docs]"
  "get_commits one_staged = Inr []"
proof -
  have v: "list_all valid_milestone [wrote_docs]"
    by (simp add: valid_milestone_def wrote_docs_def valid_new_year)
  show "is_initialized one_staged" by (simp add: is_initialized_def one_staged_def)
  show "get_staged_milestones one_staged = Inr [wrote_docs]"
    using traverse_Milestone_roundtrip[OF v]
    by (simp add: one_staged_def get_staged_milestones_def read_text_def)
  show "get_commits one_staged = Inr []"
    by (simp add: one_staged_def get_commits_def read_text_def)
qed

lemma encodable_day_1: "encodable (py ''day 1'')"
  by (simp add: encodable_def py_def is_scalar_def)

text \<open>
  C7. With a non-empty staging area, \<open>commit\<close> (which calls \<open>add_commit\<close> and then
  \<open>clear_staging\<close>) runs to its end; afterwards nothing is staged, and the history is the
  old history followed by one commit, whose milestones are the ones that were staged.
  The repository is initialized and its commits document can be read, and the message
  can be encoded.
\<close>

theorem commit_moves_staged:
  assumes "is_initialized s" "get_staged_milestones s = Inr staged" "staged \<noteq> []"
    "get_commits s = Inr cs" "valid_datetime now" "encodable msg"
  shows "outcome (commit msg now s) = Returned \<and>
         get_staged_milestones (final (commit msg now s)) = Inr [] \<and>
         (\<exists>c. get_commits (final (commit msg now s)) = Inr (cs @ [c]) \<and>
              c_milestones c = staged \<and> c_message c = msg \<and> c_timestamp c = now)"
proof -
  let ?c = "\<lparr>c_message = msg, c_milestones = staged, c_timestamp = now, c_commit_hash = None\<rparr>"
  have v: "valid_commit ?c"
    using assms(5) get_staged_valid[OF assms(2)] by (simp add: valid_commit_def)
  have "encodable (hash_input ?c)" using assms(6) by (simp add: encodable_hash_input)
  then obtain bs where e: "encode (hash_input ?c) = Inr bs"
    using encode_encodable by blast
  from add_commit_appends[OF assms(1,4) v e] obtain s1 where
    s1: "add_commit ?c s = (?c\<lparr>c_commit_hash := Some (take 8 (hexdigest (sha256 bs)))\<rparr>, Inr s1)"
      "is_initialized s1"
      "get_commits s1 = Inr (cs @ [?c\<lparr>c_commit_hash := Some (take 8 (hexdigest (sha256 bs)))\<rparr>])"
    by blast
  from get_staged_clear_staging[OF s1(2)] obtain s2 where
    s2: "clear_staging s1 = Inr s2" "get_staged_milestones s2 = Inr []" by blast
  have f: "commit msg now s = \<lparr>outcome = Returned,
      effects = [Print (Committed (length staged) msg),
                 Print (Commit_hash_is (Some (take 8 (hexdigest (sha256 bs)))))],
      final = s2\<rparr>"
    using assms(1,2,3) s1(1) s2(1) by (simp add: commit_def)
  show ?thesis
    using s2(2) get_commits_clear_staging[OF s2(1)] s1(3) by (simp add: f)
qed

theorem commit_moves_staged_witness:
  "is_initialized one_staged \<and> get_staged_milestones one_staged = Inr [wrote_docs] \<and>
   get_commits one_staged = Inr [] \<and> valid_datetime new_year \<and> encodable (py ''day 1'') \<and>
   outcome (commit (py ''day 1'') new_year one_staged) = Returned \<and>
   get_staged_milestones (final (commit (py ''day 1'') new_year one_staged)) = Inr [] \<and>
   (\<exists>c. get_commits (final (commit (py ''day 1'') new_year one_staged)) = Inr [c] \<and>
        c_milestones c = [wrote_docs])"
  using commit_moves_staged [OF one_staged_reads(1,2) _ one_staged_reads(3) valid_new_year
      encodable_day_1]
    one_staged_reads valid_new_year encodable_day_1
  by auto

text \<open>
  C1, as amended. For every commit whose message has no surrogate code point, on a
  repository whose commits document is absent or can be read, \<open>add_commit\<close> sets
  \<open>commit_hash\<close> to the first eight characters of the hexadecimal SHA-256 digest of the
  UTF-8 bytes of the ISO timestamp followed by the message, and these are eight
  lower-case hexadecimal digits.
\<close>

theorem add_commit_assigns_hash:
  assumes "get_commits s = Inr cs" "encodable (c_message c)"
  shows "\<exists>bs h. encode (isoformat (c_timestamp c) @ c_message c) = Inr bs \<and>
           h = take 8 (hexdigest (sha256 bs)) \<and>
           fst (add_commit c s) = c\<lparr>c_commit_hash := Some h\<rparr> \<and>
           length h = 8 \<and> list_all is_lower_hex h"
proof -
  have "encodable (hash_input c)" using assms(2) by (simp add: encodable_hash_input)
  then obtain bs where e: "encode (hash_input c) = Inr bs"
    using encode_encodable by blast
  show ?thesis
    using add_commit_fst[OF assms(1) e] e short_hash_shape[of bs]
    by (simp add: hash_input_def)
qed

theorem add_commit_assigns_hash_witness:
  "get_commits fresh_repo = Inr [] \<and> encodable (c_message day_one) \<and>
   (\<exists>h. fst (add_commit day_one fresh_repo) = day_one\<lparr>c_commit_hash := Some h\<rparr> \<and>
        length h = 8 \<and> list_all is_lower_hex h)"
proof -
  have e: "encodable (c_message day_one)" by (simp add: day_one_def encodable_day_1)
  show ?thesis
    using add_commit_assigns_hash [OF get_commits_fresh e] get_commits_fresh e by auto
qed

text \<open>
  C1 as stated fails: a message with a lone surrogate cannot be encoded, \<open>add_commit\<close>
  raises \<open>UnicodeEncodeError\<close>, and the commit is left without a hash.
\<close>

theorem add_commit_surrogate_counterexample:
  "c_commit_hash (fst (add_commit surrogate_commit fresh_repo)) = None \<and>
   snd (add_commit surrogate_commit fresh_repo) = Inl UnicodeEncodeError"
proof -
  have "\<not> encodable (c_message surrogate_commit)"
    by (simp add: surrogate_commit_def encodable_def is_scalar_def)
  from add_commit_not_encodable[OF get_commits_fresh this]
  show ?thesis by (simp add: surrogate_commit_def)
qed

text \<open>
  C10. The hash does not depend on the milestones: two commits with the same timestamp
  and the same message are given the same hash by \<open>add_commit\<close>, whatever their
  milestones and whatever the histories they are added to.
\<close>

theorem hash_ignores_milestones:
  assumes "c_timestamp c1 = c_timestamp c2" "c_message c1 = c_message c2"
    "get_commits s1 = Inr cs1" "get_commits s2 = Inr cs2" "encodable (c_message c1)"
  shows "c_commit_hash (fst (add_commit c1 s1)) = c_commit_hash (fst (add_commit c2 s2)) \<and>
         c_commit_hash (fst (add_commit c1 s1)) \<noteq> None"
proof -
  have "encodable (hash_input c1)" using assms(5) by (simp add: encodable_hash_input)
  then obtain bs where e: "encode (hash_input c1) = Inr bs"
    using encode_encodable by blast
  have "hash_input c2 = hash_input c1" using assms(1,2) by (simp add: hash_input_def)
  then have e2: "encode (hash_input c2) = Inr bs" using e by simp
  show ?thesis
    by (simp add: add_commit_fst[OF assms(3) e] add_commit_fst[OF assms(4) e2])
qed

theorem hash_ignores_milestones_witness:
  "c_timestamp day_one = c_timestamp (day_one\<lparr>c_milestones := [fixed_typo, wrote_docs]\<rparr>) \<and>
   c_milestones day_one \<noteq> [fixed_typo, wrote_docs] \<and>
   c_commit_hash (fst (add_commit day_one fresh_repo)) =
     c_commit_hash (fst (add_commit (day_one\<lparr>c_milestones := [fixed_typo, wrote_docs]\<rparr>) one_staged)) \<and>
   c_commit_hash (fst (add_commit day_one fresh_repo)) \<noteq> None"
proof -
  have e: "encodable (c_message day_one)" by (simp add: day_one_def encodable_day_1)
  have d: "c_milestones day_one \<noteq> [fixed_typo, wrote_docs]" by (simp add: day_one_def)
  have t: "c_timestamp day_one = c_timestamp (day_one\<lparr>c_milestones := [fixed_typo, wrote_docs]\<rparr>)"
    and m: "c_message day_one = c_message (day_one\<lparr>c_milestones := [fixed_typo, wrote_docs]\<rparr>)"
    by simp_all
  show ?thesis
    using hash_ignores_milestones [OF t m get_commits_fresh one_staged_reads(3) e] t d
    by blast
qed

text \<open>
  C3, as amended. Two commits are given different hashes exactly when the SHA-256
  digests of their hash inputs differ in the first four bytes; different timestamp and
  message pairs need not give different hashes.
\<close>

theorem hashes_differ_iff_digests_differ:
  assumes "get_commits s1 = Inr cs1" "get_commits s2 = Inr cs2"
    "encodable (c_message c1)" "encodable (c_message c2)"
  shows "\<exists>b1 b2. encode (hash_input c1) = Inr b1 \<and> encode (hash_input c2) = Inr b2 \<and>
           (c_commit_hash (fst (add_commit c1 s1)) \<noteq> c_commit_hash (fst (add_commit c2 s2))) =
           (take 4 (sha256 b1) \<noteq> take 4 (sha256 b2))"
proof -
  obtain b1 where e1: "encode (hash_input c1) = Inr b1"
    using encode_encodable[of "hash_input c1"] assms(3) by (auto simp: encodable_hash_input)
  obtain b2 where e2: "encode (hash_input c2) = Inr b2"
    using encode_encodable[of "hash_input c2"] assms(4) by (auto simp: encodable_hash_input)
  have "(hexdigest (take 4 (sha256 b1)) = hexdigest (take 4 (sha256 b2))) =
        (take 4 (sha256 b1) = take 4 (sha256 b2))"
    using hexdigest_inj by auto
  then show ?thesis
    using e1 e2
    by (simp add: add_commit_fst[OF assms(1) e1] add_commit_fst[OF assms(2) e2] short_hash_prefix)
qed

theorem hashes_differ_iff_digests_differ_witness:
  "get_commits fresh_repo = Inr [] \<and> encodable (c_message dotted_commit) \<and>
   encodable (c_message day_one) \<and>
   (\<exists>b1 b2. encode (hash_input dotted_commit) = Inr b1 \<and> encode (hash_input day_one) = Inr b2 \<and>
      (c_commit_hash (fst (add_commit dotted_commit fresh_repo)) \<noteq>
         c_commit_hash (fst (add_commit day_one fresh_repo))) =
      (take 4 (sha256 b1) \<noteq> take 4 (sha256 b2)))"
proof -
  have e1: "encodable (c_message dotted_commit)"
    by (simp add: dotted_commit_def encodable_def py_def is_scalar_def)
  have e2: "encodable (c_message day_one)" by (simp add: day_one_def encodable_day_1)
  show ?thesis
    using hashes_differ_iff_digests_differ [OF get_commits_fresh get_commits_fresh e1 e2]
      get_commits_fresh e1 e2
    by simp
qed

lemma same_hash_input: "hash_input dotted_commit = hash_input microsecond_commit"
  by code_simp

text \<open>
  C3 as stated fails: the timestamp and the message are joined with no separator, so
  midnight with the message \<open>.000001\<close> and one microsecond past midnight with the empty
  message have the same hash input, and the same hash.
\<close>

theorem distinct_pairs_same_hash_counterexample:
  "(c_timestamp dotted_commit, c_message dotted_commit) \<noteq>
     (c_timestamp microsecond_commit, c_message microsecond_commit) \<and>
   c_commit_hash (fst (add_commit dotted_commit fresh_repo)) =
     c_commit_hash (fst (add_commit microsecond_commit fresh_repo)) \<and>
   c_commit_hash (fst (add_commit dotted_commit fresh_repo)) \<noteq> None"
proof -
  have "encodable (c_message microsecond_commit)"
    by (simp add: microsecond_commit_def encodable_def)
  then have "encodable (hash_input microsecond_commit)"
    by (simp only: encodable_hash_input)
  then obtain bs where e: "encode (hash_input microsecond_commit) = Inr bs"
    using encode_encodable by blast
  then have e': "encode (hash_input dotted_commit) = Inr bs" by (simp add: same_hash_input)
  show ?thesis
    by (simp add: add_commit_fst[OF get_commits_fresh e] add_commit_fst[OF get_commits_fresh e'])
      (simp add: dotted_commit_def microsecond_commit_def py_def)
qed

section \<open>Configuration\<close>












end
